theory Spec2Isabelle
  imports Complex_Main
begin

section \<open>The gesture recognizer of src/gesture_recognizer.py\<close>

text \<open>
  A tracked position is a pair of Python integers (\<open>Tuple[int, int]\<close>); Python integers
  are unbounded, so they are \<open>int\<close>. Exceptions are values of \<open>error\<close>. A method that
  mutates \<open>self\<close> returns the state it leaves behind next to its outcome, because a Python
  exception does not undo the assignments made before it was raised.
\<close>

type_synonym point = "int \<times> int"

datatype error = NameError string | IndexError | ValueError | OverflowError | TypeError

record recognizer =
  position_history :: "point list"
  maxlen :: nat
  last_gesture :: "string option"
  gesture_cooldown :: int
  cooldown_frames :: int

type_synonym 'a outcome = "(error + 'a) \<times> recognizer"

subsection \<open>collections.deque with a maxlen\<close>

text \<open>
  The deque is the list of its items, oldest first, with its bound kept in the field
  \<open>maxlen\<close>. \<open>append\<close> adds on the right and then drops the leftmost item when the
  bound is exceeded; with bound 0 the item just added is the one dropped.
\<close>

definition deque_append :: "nat \<Rightarrow> 'a list \<Rightarrow> 'a \<Rightarrow> 'a list" where
  "deque_append n xs x = (let ys = xs @ [x] in if n < length ys then tl ys else ys)"

text \<open>
  \<open>d[i]\<close>: an index from 0 up to the length reads from the left, one from -1 down to
  minus the length reads from the right, and any other index raises IndexError.
\<close>

definition deque_get :: "'a list \<Rightarrow> int \<Rightarrow> error + 'a" where
  "deque_get xs i =
     (if 0 \<le> i \<and> i < int (length xs) then Inr (xs ! nat i)
      else if i < 0 \<and> - int (length xs) \<le> i then Inr (xs ! nat (int (length xs) + i))
      else Inl IndexError)"

subsection \<open>Construction\<close>

text \<open>
  \<open>__init__(self, history_size=10)\<close>: \<open>deque(maxlen=history_size)\<close> raises ValueError
  for a negative bound and OverflowError for one that does not fit a signed 64-bit size;
  the other three fields are set to constants.
\<close>

definition init :: "int \<Rightarrow> error + recognizer" where
  "init history_size =
     (if history_size < 0 then Inl ValueError
      else if 2 ^ 63 \<le> history_size then Inl OverflowError
      else Inr \<lparr>position_history = [], maxlen = nat history_size, last_gesture = None,
                gesture_cooldown = 0, cooldown_frames = 15\<rparr>)"

text \<open>
  The call \<open>GestureRecognizer(**kwargs)\<close> with integer keyword arguments. The signature of
  \<open>__init__\<close> has the single parameter \<open>history_size\<close> with default 10, so any other
  keyword is a TypeError raised before the body runs.
\<close>

definition GestureRecognizer :: "(string \<times> int) list \<Rightarrow> error + recognizer" where
  "GestureRecognizer kwargs =
     (if list_ex (\<lambda>kv. fst kv \<noteq> ''history_size'') kwargs then Inl TypeError
      else init (case map_of kwargs ''history_size'' of None \<Rightarrow> 10 | Some n \<Rightarrow> n))"

subsection \<open>update\<close>

text \<open>
  Line 18 of the source tests the bare name \<open>gesture_cooldown\<close>, not the attribute
  \<open>self.gesture_cooldown\<close>. A bare name that is not local to the function is looked up
  among the module's globals (and then the builtins) when the line runs, so \<open>update\<close> takes
  the integer-valued globals \<open>g\<close> as a parameter: an unbound name raises NameError, after
  the append of line 16 has already happened; a bound one decides whether line 19
  decrements the attribute.

  The test \<open>if position:\<close> of line 15 is Python truthiness: None is false, and a pair is
  true whatever its components are, the origin \<open>(0, 0)\<close> included.
\<close>

definition update :: "(string \<rightharpoonup> int) \<Rightarrow> point option \<Rightarrow> recognizer \<Rightarrow> unit outcome" where
  "update g position r =
     (let r1 = (case position of
                  Some p \<Rightarrow> r\<lparr>position_history := deque_append (maxlen r) (position_history r) p\<rparr>
                | None \<Rightarrow> r)
      in case g ''gesture_cooldown'' of
           None \<Rightarrow> (Inl (NameError ''gesture_cooldown''), r1)
         | Some c \<Rightarrow>
             (Inr (), if c > 0 then r1\<lparr>gesture_cooldown := gesture_cooldown r1 - 1\<rparr> else r1))"

text \<open>
  The module binds \<open>np\<close>, \<open>deque\<close>, \<open>Tuple\<close>, \<open>Optional\<close> and \<open>GestureRecognizer\<close> and
  nothing else; no builtin is called \<open>gesture_cooldown\<close> either.
\<close>

definition module_globals :: "string \<rightharpoonup> int" where
  "module_globals = Map.empty"

text \<open>
  A run of ticks: one \<open>update\<close> per sample, the caller going on to the next tick whatever
  the outcome of the call was.
\<close>

definition updates :: "(string \<rightharpoonup> int) \<Rightarrow> point option list \<Rightarrow> recognizer \<Rightarrow> recognizer" where
  "updates g ps r = foldl (\<lambda>s p. snd (update g p s)) r ps"

text \<open>The samples of a run that carry a position, in the order they arrived.\<close>

definition arrivals :: "point option list \<Rightarrow> point list" where
  "arrivals ps = List.map_filter (\<lambda>p. p) ps"

subsection \<open>The detectors\<close>

text \<open>
  Line 31 hands the Python integer \<open>dx**2 + dy**2\<close> to \<open>np.sqrt\<close>. An integer below
  \<open>2\<^sup>6\<^sup>4\<close> is converted to a 64-bit integer, that one to a float64, and the square root
  of the float64 is rounded to a float64 again. An integer from \<open>2\<^sup>6\<^sup>4\<close> on fits no 64-bit
  type, and the call raises TypeError. The argument is a sum of two squares, so it is never
  negative.

  \<open>float64\<close> is the double nearest to a real number, a tie going to the neighbour with the
  even significand. The numbers rounded here are 0 or lie between 1 and \<open>2\<^sup>6\<^sup>4\<close>, where
  every double is a normal one with 53 significant bits: \<open>u\<close> is the distance between
  neighbouring doubles around the number. Subnormal numbers and overflow are left out.
\<close>

definition round_half_even :: "real \<Rightarrow> int" where
  "round_half_even q =
     (let f = \<lfloor>q\<rfloor>
      in if q - real_of_int f < 1 / 2 then f
         else if 1 / 2 < q - real_of_int f then f + 1
         else if even f then f else f + 1)"

definition float64 :: "real \<Rightarrow> real" where
  "float64 x =
     (if x = 0 then 0
      else
        (let u = 2 powr (real_of_int \<lfloor>log 2 \<bar>x\<bar>\<rfloor> - 52)
         in sgn x * (u * real_of_int (round_half_even (\<bar>x\<bar> / u)))))"

definition np_sqrt :: "int \<Rightarrow> error + real" where
  "np_sqrt n =
     (if 2 ^ 64 \<le> n then Inl TypeError
      else Inr (float64 (sqrt (float64 (real_of_int n)))))"

definition distance :: "int \<Rightarrow> int \<Rightarrow> error + real" where
  "distance dx dy = np_sqrt (dx\<^sup>2 + dy\<^sup>2)"

text \<open>
  A threshold is the number the comparison sees: a real number, which covers Python's int
  and float arguments. The direction is a Python string.
\<close>

definition detectSwipe :: "string \<Rightarrow> real \<Rightarrow> recognizer \<Rightarrow> string option outcome" where
  "detectSwipe direction threshold r =
     (if length (position_history r) < 5 then (Inr None, r)
      else case deque_get (position_history r) 0 of
        Inl e \<Rightarrow> (Inl e, r)
      | Inr start \<Rightarrow>
          (case deque_get (position_history r) (- 1) of
             Inl e \<Rightarrow> (Inl e, r)
           | Inr endp \<Rightarrow>
               (let dx = fst endp - fst start;
                    dy = snd endp - snd start
                in case distance dx dy of
                     Inl e \<Rightarrow> (Inl e, r)
                   | Inr computed \<Rightarrow>
                       if computed < threshold then (Inr None, r)
                       else
                         (let detected_direction =
                                (if \<bar>dx\<bar> > \<bar>dy\<bar> then (if dx > 0 then ''right'' else ''left'')
                                 else (if dy > 0 then ''down'' else ''up''))
                          in if direction = ''any'' \<or> direction = detected_direction
                             then (if gesture_cooldown r = 0
                                   then (Inr (Some detected_direction),
                                         r\<lparr>gesture_cooldown := cooldown_frames r\<rparr>)
                                   else (Inr None, r))
                             else (Inr None, r)))))"

definition detectPush :: "real \<Rightarrow> recognizer \<Rightarrow> bool outcome" where
  "detectPush threshold r =
     (if length (position_history r) < 5 then (Inr False, r)
      else case deque_get (position_history r) 0 of
        Inl e \<Rightarrow> (Inl e, r)
      | Inr start \<Rightarrow>
          (case deque_get (position_history r) (- 1) of
             Inl e \<Rightarrow> (Inl e, r)
           | Inr endp \<Rightarrow>
               (let dy = snd endp - snd start
                in if real_of_int dy > threshold \<and> gesture_cooldown r = 0
                   then (Inr True, r\<lparr>gesture_cooldown := cooldown_frames r\<rparr>)
                   else (Inr False, r))))"

definition detectPull :: "real \<Rightarrow> recognizer \<Rightarrow> bool outcome" where
  "detectPull threshold r =
     (if length (position_history r) < 5 then (Inr False, r)
      else case deque_get (position_history r) 0 of
        Inl e \<Rightarrow> (Inl e, r)
      | Inr start \<Rightarrow>
          (case deque_get (position_history r) (- 1) of
             Inl e \<Rightarrow> (Inl e, r)
           | Inr endp \<Rightarrow>
               (let dx = snd endp - snd start
                in if real_of_int dx < - threshold \<and> gesture_cooldown r = 0
                   then (Inr True, r\<lparr>gesture_cooldown := cooldown_frames r\<rparr>)
                   else (Inr False, r))))"

subsection \<open>Names for what the detectors compute\<close>

text \<open>
  The displacement of the newest sample from the oldest one: \<open>dx\<close> of line 28, and
  \<open>dy\<close> of lines 29 and 57, which line 74 computes again under the name \<open>dx\<close>.
\<close>

definition dx_of :: "recognizer \<Rightarrow> int" where
  "dx_of r = fst (last (position_history r)) - fst (hd (position_history r))"

definition dy_of :: "recognizer \<Rightarrow> int" where
  "dy_of r = snd (last (position_history r)) - snd (hd (position_history r))"

text \<open>The label \<open>detected_direction\<close> of lines 36 to 39.\<close>

definition swipe_label :: "int \<Rightarrow> int \<Rightarrow> string" where
  "swipe_label dx dy =
     (if \<bar>dx\<bar> > \<bar>dy\<bar> then (if dx > 0 then ''right'' else ''left'')
      else (if dy > 0 then ''down'' else ''up''))"

subsection \<open>Sample states\<close>

text \<open>A recognizer of capacity 10 whose five samples end 200 pixels to the right.\<close>

definition swipe_ready :: recognizer where
  "swipe_ready = \<lparr>position_history = [(0, 0), (0, 0), (0, 0), (0, 0), (200, 0)], maxlen = 10,
                   last_gesture = None, gesture_cooldown = 0, cooldown_frames = 15\<rparr>"

text \<open>The same recognizer right after that swipe has fired.\<close>

definition swipe_fired :: recognizer where
  "swipe_fired = swipe_ready\<lparr>gesture_cooldown := 15\<rparr>"

text \<open>Five samples moving down by 200 pixels, and five moving up by 200 pixels.\<close>

definition push_ready :: recognizer where
  "push_ready = \<lparr>position_history = [(0, 0), (0, 50), (0, 100), (0, 150), (0, 200)],
                  maxlen = 10, last_gesture = None, gesture_cooldown = 0, cooldown_frames = 15\<rparr>"

definition pull_ready :: recognizer where
  "pull_ready = \<lparr>position_history = [(0, 0), (0, - 50), (0, - 100), (0, - 150), (0, - 200)],
                  maxlen = 10, last_gesture = None, gesture_cooldown = 0, cooldown_frames = 15\<rparr>"

text \<open>Five samples ending on the diagonal, with dx = dy = 50.\<close>

definition tie_ready :: recognizer where
  "tie_ready = \<lparr>position_history = [(10, 20), (0, 0), (0, 0), (0, 0), (60, 70)],
                 maxlen = 10, last_gesture = None, gesture_cooldown = 0, cooldown_frames = 15\<rparr>"

text \<open>Five samples of a point that comes back to where it started.\<close>

definition still_ready :: recognizer where
  "still_ready = \<lparr>position_history = [(3, 4), (9, 9), (3, 4), (3, 5), (3, 4)],
                   maxlen = 10, last_gesture = None, gesture_cooldown = 0, cooldown_frames = 15\<rparr>"

text \<open>Two samples only.\<close>

definition short_history :: recognizer where
  "short_history = \<lparr>position_history = [(0, 0), (500, 500)],
                     maxlen = 10, last_gesture = None, gesture_cooldown = 0, cooldown_frames = 15\<rparr>"

text \<open>
  Five samples ending \<open>2\<^sup>3\<^sup>2\<close> pixels to the right, with the cooldown at 0 and with the
  cooldown running.
\<close>

definition huge_ready :: recognizer where
  "huge_ready = \<lparr>position_history = [(0, 0), (0, 0), (0, 0), (0, 0), (4294967296, 0)],
                  maxlen = 10, last_gesture = None, gesture_cooldown = 0, cooldown_frames = 15\<rparr>"

definition huge_fired :: recognizer where
  "huge_fired = huge_ready\<lparr>gesture_cooldown := 15\<rparr>"

text \<open>
  Five samples with dx = 67117698 and dy = 11586, so that \<open>dx\<^sup>2 + dy\<^sup>2 = 67117699\<^sup>2 - 1\<close>.
\<close>

definition rounding_ready :: recognizer where
  "rounding_ready = \<lparr>position_history = [(0, 0), (0, 0), (0, 0), (0, 0), (67117698, 11586)],
                      maxlen = 10, last_gesture = None, gesture_cooldown = 0, cooldown_frames = 15\<rparr>"

text \<open>What \<open>GestureRecognizer(3)\<close> and \<open>GestureRecognizer(0)\<close> construct.\<close>

definition capacity_three :: recognizer where
  "capacity_three = \<lparr>position_history = [], maxlen = 3, last_gesture = None,
                      gesture_cooldown = 0, cooldown_frames = 15\<rparr>"

definition capacity_zero :: recognizer where
  "capacity_zero = \<lparr>position_history = [], maxlen = 0, last_gesture = None,
                     gesture_cooldown = 0, cooldown_frames = 15\<rparr>"

section \<open>Basic facts\<close>

subsection \<open>Rounding to float64\<close>

lemma round_half_even_int: "round_half_even (real_of_int k) = k"
  by (simp add: round_half_even_def)

lemma round_half_even_ge: "\<lfloor>q\<rfloor> \<le> round_half_even q"
  by (simp add: round_half_even_def Let_def)

lemma float64_zero: "float64 0 = 0"
  by (simp add: float64_def)

lemma float64_pos:
  "0 < x \<Longrightarrow> float64 x =
     2 powr (real_of_int \<lfloor>log 2 x\<rfloor> - 52)
       * real_of_int (round_half_even (x / 2 powr (real_of_int \<lfloor>log 2 x\<rfloor> - 52)))"
  by (simp add: float64_def Let_def)

lemma float64_exact:
  assumes "0 < x" and "x / 2 powr (real_of_int \<lfloor>log 2 x\<rfloor> - 52) = real_of_int k"
  shows "float64 x = x"
proof -
  define u where "u = 2 powr (real_of_int \<lfloor>log 2 x\<rfloor> - 52)"
  have upos: "0 < u" by (simp add: u_def)
  have q: "x / u = real_of_int k" using assms(2) by (simp add: u_def)
  then have x: "x = u * real_of_int k" using upos by (simp add: field_simps)
  have "float64 x = u * real_of_int (round_half_even (x / u))"
    using assms(1) by (simp add: float64_pos u_def)
  also have "\<dots> = u * real_of_int k"
    by (simp only: q round_half_even_int)
  finally show ?thesis using x by simp
qed

lemma float64_int:
  assumes "0 < m" and "m < 2 ^ 53"
  shows "float64 (real_of_int m) = real_of_int m"
proof -
  define e where "e = \<lfloor>log 2 (real_of_int m)\<rfloor>"
  have mpos: "0 < real_of_int m" using assms(1) by simp
  have "real_of_int m < real_of_int (2 ^ 53)"
    using assms(2) by (simp only: of_int_less_iff)
  then have "real_of_int m < 2 powr 53" by simp
  then have "log 2 (real_of_int m) < 53"
    using mpos by (simp add: log_less_iff)
  then have "e < 53" by (simp add: e_def floor_less_iff)
  then have e52: "e \<le> 52" by simp
  define j where "j = nat (52 - e)"
  have "real_of_int e - 52 = - real j" using e52 by (simp add: j_def)
  then have "2 powr (real_of_int e - 52) = inverse (2 powr real j)"
    by (simp only: powr_minus)
  also have "\<dots> = inverse (2 ^ j)"
    by (simp add: powr_realpow)
  finally have u: "2 powr (real_of_int e - 52) = inverse (2 ^ j)" .
  have "real_of_int m / 2 powr (real_of_int e - 52) = real_of_int (m * 2 ^ j)"
    by (simp add: u divide_inverse)
  then show ?thesis
    using float64_exact [of "real_of_int m" "m * 2 ^ j"] mpos by (simp add: e_def)
qed

lemma float64_ge_power:
  assumes "2 ^ k \<le> x"
  shows "2 ^ k \<le> float64 x"
proof -
  have "(0::real) < 2 ^ k" by simp
  with assms have xpos: "0 < x" by linarith
  define e where "e = \<lfloor>log 2 x\<rfloor>"
  define u where "u = 2 powr (real_of_int e - 52)"
  have val: "float64 x = u * real_of_int (round_half_even (x / u))"
    using xpos by (simp add: float64_pos e_def u_def)
  have upos: "0 < u" by (simp add: u_def)
  have "2 powr real k \<le> x" using assms by (simp add: powr_realpow)
  then have "real k \<le> log 2 x"
    using xpos by (simp add: le_log_iff)
  then have "real_of_int (int k) \<le> log 2 x" by simp
  then have ke: "int k \<le> e" unfolding e_def by (simp only: le_floor_iff)
  have "real_of_int e \<le> log 2 x" by (simp add: e_def)
  then have low: "2 powr real_of_int e \<le> x"
    using xpos by (simp add: le_log_iff)
  have split: "2 powr real_of_int e = u * 2 ^ 52"
    by (simp add: u_def powr_diff)
  with low upos have "2 ^ 52 \<le> x / u"
    by (simp add: field_simps)
  then have "real_of_int (2 ^ 52) \<le> x / u" by simp
  then have "2 ^ 52 \<le> \<lfloor>x / u\<rfloor>" by (simp only: le_floor_iff)
  with round_half_even_ge [of "x / u"] have "2 ^ 52 \<le> round_half_even (x / u)"
    by linarith
  then have "real_of_int (2 ^ 52) \<le> real_of_int (round_half_even (x / u))"
    by (simp only: of_int_le_iff)
  then have "2 ^ 52 \<le> real_of_int (round_half_even (x / u))" by simp
  with upos have "u * 2 ^ 52 \<le> u * real_of_int (round_half_even (x / u))"
    by simp
  then have big: "2 powr real_of_int e \<le> float64 x"
    by (simp only: val split)
  have "real k \<le> real_of_int e" using ke by linarith
  then have "2 powr real k \<le> 2 powr real_of_int e"
    by (simp add: powr_mono)
  then have "(2::real) ^ k \<le> 2 powr real_of_int e"
    by (simp add: powr_realpow)
  with big show ?thesis by linarith
qed

subsection \<open>np.sqrt at the sample displacements\<close>

lemma np_sqrt_zero: "np_sqrt 0 = Inr 0"
  by (simp add: np_sqrt_def float64_zero)

lemma np_sqrt_square:
  assumes "0 < k" and "k\<^sup>2 < 2 ^ 53"
  shows "np_sqrt (k\<^sup>2) = Inr (real_of_int k)"
proof -
  have "0 < k\<^sup>2" using assms(1) by simp
  then have a: "float64 (real_of_int (k\<^sup>2)) = real_of_int (k\<^sup>2)"
    using assms(2) by (rule float64_int)
  have "k \<le> k\<^sup>2" using assms(1) by (simp add: self_le_power)
  with assms(2) have "k < 2 ^ 53" by linarith
  with assms(1) have b: "float64 (real_of_int k) = real_of_int k"
    by (rule float64_int)
  have c: "sqrt (real_of_int (k\<^sup>2)) = real_of_int k"
    using assms(1) by simp
  have "k\<^sup>2 < 2 ^ 64" using assms(2) by simp
  then show ?thesis by (simp add: np_sqrt_def a b c del: of_int_power)
qed

lemma np_sqrt_5000: "\<exists>d. np_sqrt 5000 = Inr d \<and> 64 \<le> d"
proof -
  have a: "float64 (real_of_int 5000) = real_of_int 5000"
    by (rule float64_int) simp_all
  have "(64::real) \<le> sqrt 5000"
    by (rule real_le_rsqrt) simp
  then have "2 ^ 6 \<le> sqrt 5000" by simp
  then have "2 ^ 6 \<le> float64 (sqrt 5000)" by (rule float64_ge_power)
  then show ?thesis using a by (simp add: np_sqrt_def)
qed

text \<open>
  The exact root of \<open>67117699\<^sup>2 - 1\<close> is less than half the distance between doubles
  below 67117699, so the computed root is 67117699 itself.
\<close>

lemma np_sqrt_rounds_up: "np_sqrt (67117698\<^sup>2 + 11586\<^sup>2) = Inr 67117699"
proof -
  define x :: real where "x = sqrt 4504785519054600"
  have sum: "(67117698::int)\<^sup>2 + 11586\<^sup>2 = 4504785519054600" by simp
  have a: "float64 (real_of_int 4504785519054600) = real_of_int 4504785519054600"
    by (rule float64_int) simp_all
  have below: "x < 67117699"
    unfolding x_def by (rule real_less_lsqrt) simp_all
  have "(67117699 - 1 / 2 ^ 27 :: real)\<^sup>2 < 4504785519054600"
    by (simp add: power2_eq_square)
  then have above: "67117699 - 1 / 2 ^ 27 < x"
    unfolding x_def by (rule real_less_rsqrt)
  have xpos: "0 < x" using above by simp
  have "2 powr 26 \<le> x" and "x < 2 powr 27"
    using above below by simp_all
  then have "26 \<le> log 2 x" and "log 2 x < 27"
    using xpos by (simp_all add: le_log_iff log_less_iff)
  then have e: "\<lfloor>log 2 x\<rfloor> = 26"
    by (intro floor_unique) simp_all
  have u: "2 powr (real_of_int 26 - 52) = 1 / 2 ^ 26"
    by (simp add: powr_minus_divide flip: powr_numeral)
  define q where "q = x * 2 ^ 26"
  have qlow: "67117699 * 2 ^ 26 - 1 / 2 < q" and qhigh: "q < 67117699 * 2 ^ 26"
    using above below by (simp_all add: q_def field_simps)
  have f: "\<lfloor>q\<rfloor> = 67117699 * 2 ^ 26 - 1"
    using qlow qhigh by (intro floor_unique) simp_all
  have r: "round_half_even q = 67117699 * 2 ^ 26"
    using qlow by (simp add: round_half_even_def f)
  have "float64 x = 1 / 2 ^ 26 * real_of_int (round_half_even (x / (1 / 2 ^ 26)))"
    using xpos by (simp only: float64_pos e u)
  also have "x / (1 / 2 ^ 26) = q" by (simp add: q_def)
  finally have "float64 x = 67117699" by (simp add: r)
  then show ?thesis
    using a by (simp add: np_sqrt_def sum x_def)
qed

subsection \<open>The detectors, unfolded\<close>

lemma deque_get_first: "xs \<noteq> [] \<Longrightarrow> deque_get xs 0 = Inr (hd xs)"
  by (cases xs) (simp_all add: deque_get_def)

lemma deque_get_last: "xs \<noteq> [] \<Longrightarrow> deque_get xs (- 1) = Inr (last xs)"
proof -
  assume "xs \<noteq> []"
  then have "1 \<le> length xs"
    by (cases xs) simp_all
  then have "nat (int (length xs) + (- 1)) = length xs - 1" and "- int (length xs) \<le> - 1"
    by simp_all
  with \<open>xs \<noteq> []\<close> show ?thesis
    by (simp add: deque_get_def last_conv_nth)
qed

lemma get_first_of_five: "\<not> length xs < 5 \<Longrightarrow> deque_get xs 0 = Inr (hd xs)"
  by (rule deque_get_first) auto

lemma get_last_of_five: "\<not> length xs < 5 \<Longrightarrow> deque_get xs (- 1) = Inr (last xs)"
  by (rule deque_get_last) auto

text \<open>
  With the two index reads resolved (the length test guards both), each detector is one
  decision on the oldest and the newest sample.
\<close>

lemma detectSwipe_unfold:
  "detectSwipe d t r =
     (if length (position_history r) < 5 then (Inr None, r)
      else case distance (dx_of r) (dy_of r) of
        Inl e \<Rightarrow> (Inl e, r)
      | Inr computed \<Rightarrow>
          if \<not> computed < t \<and> (d = ''any'' \<or> d = swipe_label (dx_of r) (dy_of r))
             \<and> gesture_cooldown r = 0
          then (Inr (Some (swipe_label (dx_of r) (dy_of r))),
                r\<lparr>gesture_cooldown := cooldown_frames r\<rparr>)
          else (Inr None, r))"
  by (cases "length (position_history r) < 5")
     (simp_all add: detectSwipe_def get_first_of_five get_last_of_five Let_def
        dx_of_def dy_of_def swipe_label_def split: sum.split)

lemma detectSwipe_short:
  "length (position_history r) < 5 \<Longrightarrow> detectSwipe d t r = (Inr None, r)"
  by (simp add: detectSwipe_unfold)

lemma detectSwipe_raises:
  "5 \<le> length (position_history r) \<Longrightarrow> distance (dx_of r) (dy_of r) = Inl e \<Longrightarrow>
     detectSwipe d t r = (Inl e, r)"
  by (simp add: detectSwipe_unfold)

lemma detectSwipe_computes:
  "5 \<le> length (position_history r) \<Longrightarrow> distance (dx_of r) (dy_of r) = Inr computed \<Longrightarrow>
     detectSwipe d t r =
       (if \<not> computed < t \<and> (d = ''any'' \<or> d = swipe_label (dx_of r) (dy_of r))
           \<and> gesture_cooldown r = 0
        then (Inr (Some (swipe_label (dx_of r) (dy_of r))),
              r\<lparr>gesture_cooldown := cooldown_frames r\<rparr>)
        else (Inr None, r))"
  by (simp add: detectSwipe_unfold)

lemma distance_raises:
  "distance dx dy = Inl e \<longleftrightarrow> e = TypeError \<and> 2 ^ 64 \<le> dx\<^sup>2 + dy\<^sup>2"
  by (auto simp add: distance_def np_sqrt_def)

lemma distance_returns:
  "dx\<^sup>2 + dy\<^sup>2 < 2 ^ 64 \<Longrightarrow> \<exists>computed. distance dx dy = Inr computed"
  by (simp add: distance_def np_sqrt_def)

lemma detectPush_unfold:
  "detectPush t r =
     (if 5 \<le> length (position_history r) \<and> real_of_int (dy_of r) > t \<and> gesture_cooldown r = 0
      then (Inr True, r\<lparr>gesture_cooldown := cooldown_frames r\<rparr>)
      else (Inr False, r))"
  by (cases "length (position_history r) < 5")
     (simp_all add: detectPush_def get_first_of_five get_last_of_five Let_def dy_of_def)

lemma detectPull_unfold:
  "detectPull t r =
     (if 5 \<le> length (position_history r) \<and> real_of_int (dy_of r) < - t \<and> gesture_cooldown r = 0
      then (Inr True, r\<lparr>gesture_cooldown := cooldown_frames r\<rparr>)
      else (Inr False, r))"
  by (cases "length (position_history r) < 5")
     (simp_all add: detectPull_def get_first_of_five get_last_of_five Let_def dy_of_def)

lemma sample_fields:
  "position_history swipe_ready = [(0, 0), (0, 0), (0, 0), (0, 0), (200, 0)]"
  "position_history swipe_fired = [(0, 0), (0, 0), (0, 0), (0, 0), (200, 0)]"
  "position_history push_ready = [(0, 0), (0, 50), (0, 100), (0, 150), (0, 200)]"
  "position_history pull_ready = [(0, 0), (0, - 50), (0, - 100), (0, - 150), (0, - 200)]"
  "position_history tie_ready = [(10, 20), (0, 0), (0, 0), (0, 0), (60, 70)]"
  "position_history still_ready = [(3, 4), (9, 9), (3, 4), (3, 5), (3, 4)]"
  "position_history short_history = [(0, 0), (500, 500)]"
  "position_history huge_ready = [(0, 0), (0, 0), (0, 0), (0, 0), (4294967296, 0)]"
  "position_history huge_fired = [(0, 0), (0, 0), (0, 0), (0, 0), (4294967296, 0)]"
  "position_history rounding_ready = [(0, 0), (0, 0), (0, 0), (0, 0), (67117698, 11586)]"
  "gesture_cooldown swipe_ready = 0" "gesture_cooldown swipe_fired = 15"
  "gesture_cooldown push_ready = 0" "gesture_cooldown pull_ready = 0"
  "gesture_cooldown tie_ready = 0" "gesture_cooldown still_ready = 0"
  "gesture_cooldown short_history = 0"
  "gesture_cooldown huge_ready = 0" "gesture_cooldown huge_fired = 15"
  "gesture_cooldown rounding_ready = 0"
  "cooldown_frames swipe_ready = 15" "cooldown_frames swipe_fired = 15"
  "cooldown_frames push_ready = 15" "cooldown_frames pull_ready = 15"
  "cooldown_frames tie_ready = 15" "cooldown_frames still_ready = 15"
  "cooldown_frames rounding_ready = 15"
  "last_gesture swipe_ready = None"
  by (simp_all add: swipe_ready_def swipe_fired_def push_ready_def pull_ready_def
      tie_ready_def still_ready_def short_history_def huge_ready_def huge_fired_def
      rounding_ready_def)

lemma sample_displacements:
  "dx_of swipe_ready = 200" "dy_of swipe_ready = 0"
  "dx_of swipe_fired = 200" "dy_of swipe_fired = 0"
  "dy_of push_ready = 200" "dy_of pull_ready = - 200"
  "dx_of tie_ready = 50" "dy_of tie_ready = 50"
  "dx_of still_ready = 0" "dy_of still_ready = 0"
  "dx_of huge_ready = 4294967296" "dy_of huge_ready = 0"
  "dx_of huge_fired = 4294967296" "dy_of huge_fired = 0"
  "dx_of rounding_ready = 67117698" "dy_of rounding_ready = 11586"
  by (simp_all add: dx_of_def dy_of_def sample_fields)

lemma sample_distances:
  "distance 200 0 = Inr 200" "distance 0 0 = Inr 0"
  "distance 4294967296 0 = Inl TypeError"
  "distance 67117698 11586 = Inr 67117699"
  "\<exists>computed. distance 50 50 = Inr computed \<and> 64 \<le> computed"
proof -
  show "distance 200 0 = Inr 200"
    using np_sqrt_square [of 200] by (simp add: distance_def)
  show "distance 0 0 = Inr 0"
    by (simp add: distance_def np_sqrt_zero)
  show "distance 4294967296 0 = Inl TypeError"
    by (simp add: distance_def np_sqrt_def)
  show "distance 67117698 11586 = Inr 67117699"
    unfolding distance_def by (rule np_sqrt_rounds_up)
  show "\<exists>computed. distance 50 50 = Inr computed \<and> 64 \<le> computed"
    using np_sqrt_5000 by (simp add: distance_def)
qed

lemma sample_labels:
  "swipe_label 200 0 = ''right''" "swipe_label 50 50 = ''down''" "swipe_label 0 0 = ''up''"
  "swipe_label 67117698 11586 = ''right''"
  by (simp_all add: swipe_label_def)

text \<open>The calls on the sample states that the claims below refer to.\<close>

lemma sample_calls:
  "detectSwipe ''any'' 100 swipe_ready =
     (Inr (Some ''right''), swipe_ready\<lparr>gesture_cooldown := 15\<rparr>)"
  "detectSwipe ''any'' 300 swipe_ready = (Inr None, swipe_ready)"
  "detectSwipe ''left'' 100 swipe_ready = (Inr None, swipe_ready)"
  "detectSwipe ''up'' 100 swipe_ready = (Inr None, swipe_ready)"
  "detectSwipe ''any'' 100 swipe_fired = (Inr None, swipe_fired)"
  "detectSwipe ''any'' 100 huge_ready = (Inl TypeError, huge_ready)"
  "detectSwipe ''any'' 100 huge_fired = (Inl TypeError, huge_fired)"
  "detectSwipe ''any'' 67117699 rounding_ready =
     (Inr (Some ''right''), rounding_ready\<lparr>gesture_cooldown := 15\<rparr>)"
  "detectSwipe ''any'' 0 still_ready =
     (Inr (Some ''up''), still_ready\<lparr>gesture_cooldown := 15\<rparr>)"
  by (simp_all add: detectSwipe_unfold sample_fields sample_displacements sample_distances
      sample_labels)

subsection \<open>The history as a sliding window\<close>

lemma deque_append_window:
  "deque_append n (drop (length qs - n) qs) p = drop (length (qs @ [p]) - n) (qs @ [p])"
proof (cases "length qs < n")
  case True
  then show ?thesis by (simp add: deque_append_def)
next
  case False
  then have full: "length (drop (length qs - n) qs) = n" by simp
  show ?thesis
  proof (cases "n = 0")
    case True
    then show ?thesis by (simp add: deque_append_def)
  next
    case pos: False
    with False have ne: "drop (length qs - n) qs \<noteq> []" by auto
    have "deque_append n (drop (length qs - n) qs) p = tl (drop (length qs - n) qs) @ [p]"
      using full ne by (simp add: deque_append_def)
    also have "\<dots> = drop (Suc (length qs - n)) qs @ [p]"
      by (simp add: drop_Suc tl_drop)
    also have "\<dots> = drop (length (qs @ [p]) - n) (qs @ [p])"
      using False pos by (simp add: Suc_diff_le)
    finally show ?thesis .
  qed
qed

lemma update_position_history:
  "position_history (snd (update g position r)) =
     (case position of None \<Rightarrow> position_history r
      | Some p \<Rightarrow> deque_append (maxlen r) (position_history r) p)"
  by (simp add: update_def Let_def split: option.split)

lemma update_maxlen: "maxlen (snd (update g position r)) = maxlen r"
  by (simp add: update_def Let_def split: option.split)

lemma updates_snoc: "updates g (ps @ [p]) r = snd (update g p (updates g ps r))"
  by (simp add: updates_def)

lemma updates_maxlen: "maxlen (updates g ps r) = maxlen r"
  by (induction ps rule: rev_induct) (simp_all add: updates_snoc update_maxlen updates_def)

lemma arrivals_snoc:
  "arrivals (ps @ [Some p]) = arrivals ps @ [p]" "arrivals (ps @ [None]) = arrivals ps"
  by (simp_all add: arrivals_def map_filter_def)

lemma updates_window:
  assumes "position_history r = []"
  shows "position_history (updates g ps r) =
           drop (length (arrivals ps) - maxlen r) (arrivals ps)"
proof (induction ps rule: rev_induct)
  case Nil
  from assms show ?case by (simp add: updates_def arrivals_def map_filter_def)
next
  case (snoc x ps)
  show ?case
  proof (cases x)
    case None
    with snoc show ?thesis
      by (simp add: updates_snoc update_position_history arrivals_snoc)
  next
    case (Some p)
    with snoc show ?thesis
      by (simp only: updates_snoc update_position_history arrivals_snoc option.case
          updates_maxlen deque_append_window)
  qed
qed

lemma deque_append_room:
  "length xs \<le> n \<Longrightarrow> 0 < n \<Longrightarrow>
     deque_append n xs p = (if length xs = n then tl xs else xs) @ [p]"
  by (cases xs) (auto simp add: deque_append_def)

lemma deque_append_no_room: "deque_append 0 [] p = []"
  by (simp add: deque_append_def)

section \<open>Claims\<close>

text \<open>
  C1. The claim: every call of update lowers gesture_cooldown by one when it is positive
  and leaves it at 0 otherwise. The code does not. Line 18 reads the name gesture_cooldown,
  which the module does not bind, so every call raises NameError and leaves the counter
  as it was: on the recognizer that has just fired a swipe (gesture_cooldown = 15), update
  with no position returns the same recognizer, the counter still at 15 and not at 14.
\<close>

theorem update_cooldown_stuck:
  "update module_globals None swipe_fired = (Inl (NameError ''gesture_cooldown''), swipe_fired)
   \<and> gesture_cooldown swipe_fired = 15
   \<and> fst (update module_globals position r) = Inl (NameError ''gesture_cooldown'')
   \<and> gesture_cooldown (snd (update module_globals position r)) = gesture_cooldown r"
proof (intro conjI)
  show "update module_globals None swipe_fired =
          (Inl (NameError ''gesture_cooldown''), swipe_fired)"
    by (simp add: update_def module_globals_def)
  show "gesture_cooldown swipe_fired = 15"
    by (simp add: swipe_fired_def)
  show "fst (update module_globals position r) = Inl (NameError ''gesture_cooldown'')"
    by (simp add: update_def module_globals_def Let_def)
  show "gesture_cooldown (snd (update module_globals position r)) = gesture_cooldown r"
    by (simp add: update_def module_globals_def Let_def split: option.split)
qed

text \<open>
  C2, as the code has it. A detector reports a gesture only from a state whose
  gesture_cooldown is 0, and the state it leaves then has gesture_cooldown equal to
  cooldown_frames. From a state whose gesture_cooldown is positive no detector reports a
  gesture: detectPush and detectPull return False, and detectSwipe returns None, unless
  the history holds at least 5 samples with dx^2 + dy^2 from 2^64 on, where np.sqrt raises
  TypeError before the cooldown is looked at.
\<close>

theorem cooldown_gating:
  "(fst (detectSwipe d ts rs) = Inr (Some lbl) \<longrightarrow>
      gesture_cooldown rs = 0 \<and>
      gesture_cooldown (snd (detectSwipe d ts rs)) = cooldown_frames (snd (detectSwipe d ts rs)) \<and>
      cooldown_frames (snd (detectSwipe d ts rs)) = cooldown_frames rs)
   \<and> (fst (detectPush tp rp) = Inr True \<longrightarrow>
      gesture_cooldown rp = 0 \<and>
      gesture_cooldown (snd (detectPush tp rp)) = cooldown_frames (snd (detectPush tp rp)) \<and>
      cooldown_frames (snd (detectPush tp rp)) = cooldown_frames rp)
   \<and> (fst (detectPull tq rq) = Inr True \<longrightarrow>
      gesture_cooldown rq = 0 \<and>
      gesture_cooldown (snd (detectPull tq rq)) = cooldown_frames (snd (detectPull tq rq)) \<and>
      cooldown_frames (snd (detectPull tq rq)) = cooldown_frames rq)
   \<and> (0 < gesture_cooldown rc \<longrightarrow>
      fst (detectSwipe dc t1 rc) =
        (if 5 \<le> length (position_history rc) \<and> 2 ^ 64 \<le> (dx_of rc)\<^sup>2 + (dy_of rc)\<^sup>2
         then Inl TypeError else Inr None) \<and>
      fst (detectPush t2 rc) = Inr False \<and>
      fst (detectPull t3 rc) = Inr False)"
proof (intro conjI)
  show "fst (detectSwipe d ts rs) = Inr (Some lbl) \<longrightarrow>
      gesture_cooldown rs = 0 \<and>
      gesture_cooldown (snd (detectSwipe d ts rs)) = cooldown_frames (snd (detectSwipe d ts rs)) \<and>
      cooldown_frames (snd (detectSwipe d ts rs)) = cooldown_frames rs"
    by (cases "distance (dx_of rs) (dy_of rs)") (simp_all add: detectSwipe_unfold)
  show "fst (detectPush tp rp) = Inr True \<longrightarrow>
      gesture_cooldown rp = 0 \<and>
      gesture_cooldown (snd (detectPush tp rp)) = cooldown_frames (snd (detectPush tp rp)) \<and>
      cooldown_frames (snd (detectPush tp rp)) = cooldown_frames rp"
    by (simp add: detectPush_unfold)
  show "fst (detectPull tq rq) = Inr True \<longrightarrow>
      gesture_cooldown rq = 0 \<and>
      gesture_cooldown (snd (detectPull tq rq)) = cooldown_frames (snd (detectPull tq rq)) \<and>
      cooldown_frames (snd (detectPull tq rq)) = cooldown_frames rq"
    by (simp add: detectPull_unfold)
  show "0 < gesture_cooldown rc \<longrightarrow>
      fst (detectSwipe dc t1 rc) =
        (if 5 \<le> length (position_history rc) \<and> 2 ^ 64 \<le> (dx_of rc)\<^sup>2 + (dy_of rc)\<^sup>2
         then Inl TypeError else Inr None) \<and>
      fst (detectPush t2 rc) = Inr False \<and>
      fst (detectPull t3 rc) = Inr False"
    by (simp add: detectSwipe_unfold distance_def np_sqrt_def detectPush_unfold
        detectPull_unfold)
qed

theorem cooldown_gating_witness:
  "fst (detectSwipe ''any'' 100 swipe_ready) = Inr (Some ''right'')
   \<and> gesture_cooldown swipe_ready = 0
   \<and> gesture_cooldown (snd (detectSwipe ''any'' 100 swipe_ready)) = 15
   \<and> fst (detectPush 150 push_ready) = Inr True
   \<and> gesture_cooldown (snd (detectPush 150 push_ready)) = 15
   \<and> fst (detectPull 150 pull_ready) = Inr True
   \<and> gesture_cooldown (snd (detectPull 150 pull_ready)) = 15
   \<and> 0 < gesture_cooldown swipe_fired
   \<and> fst (detectSwipe ''any'' 100 swipe_fired) = Inr None
   \<and> fst (detectPush (- 1) swipe_fired) = Inr False
   \<and> fst (detectPull (- 1) swipe_fired) = Inr False"
proof -
  have s: "fst (detectSwipe ''any'' 100 swipe_ready) = Inr (Some ''right'')"
    by (simp add: sample_calls)
  have p: "fst (detectPush 150 push_ready) = Inr True"
    by (simp add: detectPush_unfold sample_fields sample_displacements)
  have q: "fst (detectPull 150 pull_ready) = Inr True"
    by (simp add: detectPull_unfold sample_fields sample_displacements)
  have c: "0 < gesture_cooldown swipe_fired"
    by (simp add: sample_fields)
  from cooldown_gating [where d = "''any''" and ts = 100 and rs = swipe_ready
      and lbl = "''right''" and tp = 150 and rp = push_ready and tq = 150 and rq = pull_ready
      and rc = swipe_fired and dc = "''any''" and ?t1.0 = 100 and ?t2.0 = "- 1" and ?t3.0 = "- 1"]
    s p q c
  show ?thesis by (simp add: sample_fields sample_displacements)
qed

text \<open>
  C2, as the claim states it, fails: with the cooldown at 15 and five samples ending 2^32
  pixels to the right, detectSwipe does not return None; it raises TypeError.
\<close>

theorem cooldown_raise_counterexample:
  "0 < gesture_cooldown huge_fired
   \<and> detectSwipe ''any'' 100 huge_fired = (Inl TypeError, huge_fired)
   \<and> fst (detectSwipe ''any'' 100 huge_fired) \<noteq> Inr None"
  by (simp add: sample_calls sample_fields)

text \<open>
  C3, as the code has it. Start from a recognizer constructed with capacity history_size
  and run update over any sequence of samples. The history is then the last history_size
  positions that arrived, oldest first, so its length never exceeds history_size. One more
  update with no position leaves it as it is. One more update with a position p, the
  origin or any other, puts p at the newest end, after dropping the oldest entry when the
  history was full, provided history_size is at least 1; with history_size = 0 the history
  stays empty. (The call itself ends in the NameError of C1; the append has happened by
  then.)
\<close>

theorem history_sliding_window:
  assumes "init history_size = Inr r0"
  shows "position_history (updates g ps r0) =
           drop (length (arrivals ps) - nat history_size) (arrivals ps)
       \<and> length (position_history (updates g ps r0)) \<le> nat history_size
       \<and> position_history (snd (update g None (updates g ps r0))) =
           position_history (updates g ps r0)
       \<and> position_history (snd (update g (Some p) (updates g ps r0))) =
           (if history_size = 0 then []
            else (if length (position_history (updates g ps r0)) = nat history_size
                  then tl (position_history (updates g ps r0))
                  else position_history (updates g ps r0)) @ [p])"
proof -
  from assms have start: "position_history r0 = []" and cap: "maxlen r0 = nat history_size"
    and nonneg: "0 \<le> history_size"
    by (auto simp add: init_def split: if_splits)
  have window: "position_history (updates g ps r0) =
                  drop (length (arrivals ps) - nat history_size) (arrivals ps)"
    using updates_window [OF start, of g ps] by (simp add: cap)
  have bounded: "length (position_history (updates g ps r0)) \<le> nat history_size"
    by (simp add: window)
  have idle: "position_history (snd (update g None (updates g ps r0))) =
                position_history (updates g ps r0)"
    by (simp add: update_position_history)
  have step: "position_history (snd (update g (Some p) (updates g ps r0))) =
                deque_append (nat history_size) (position_history (updates g ps r0)) p"
    by (simp add: update_position_history updates_maxlen cap)
  have arrive: "position_history (snd (update g (Some p) (updates g ps r0))) =
           (if history_size = 0 then []
            else (if length (position_history (updates g ps r0)) = nat history_size
                  then tl (position_history (updates g ps r0))
                  else position_history (updates g ps r0)) @ [p])"
  proof (cases "history_size = 0")
    case True
    with bounded have "position_history (updates g ps r0) = []" by simp
    with True show ?thesis by (simp add: step deque_append_no_room)
  next
    case False
    with nonneg have "0 < nat history_size" by simp
    from deque_append_room [OF bounded this] False show ?thesis
      by (simp add: step)
  qed
  from window bounded idle arrive show ?thesis
    by (intro conjI)
qed

theorem history_sliding_window_witness:
  "init 3 = Inr capacity_three
   \<and> position_history
        (updates module_globals [Some (0, 0), None, Some (1, 1), Some (2, 2)] capacity_three) =
       [(0, 0), (1, 1), (2, 2)]
   \<and> position_history (snd (update module_globals (Some (3, 3))
        (updates module_globals [Some (0, 0), None, Some (1, 1), Some (2, 2)] capacity_three))) =
       [(1, 1), (2, 2), (3, 3)]
   \<and> position_history (snd (update module_globals None
        (updates module_globals [Some (0, 0), None, Some (1, 1), Some (2, 2)] capacity_three))) =
       [(0, 0), (1, 1), (2, 2)]"
proof -
  have made: "init 3 = Inr capacity_three"
    by (simp add: init_def capacity_three_def)
  have arrived: "arrivals [Some (0, 0), None, Some (1, 1), Some (2, 2)] =
                   [(0, 0), (1, 1), (2, 2 :: int) :: point]"
    by (simp add: arrivals_def map_filter_def)
  from history_sliding_window [OF made, of module_globals
      "[Some (0, 0), None, Some (1, 1), Some (2, 2)]" "(3, 3)"] made arrived
  show ?thesis by simp
qed

text \<open>
  C3, as the claim states it, fails for a recognizer of capacity 0: update with the position
  (0, 0) leaves the history empty, so that position is not its newest entry.
\<close>

theorem zero_capacity_counterexample:
  "init 0 = Inr capacity_zero
   \<and> position_history (snd (update module_globals (Some (0, 0)) capacity_zero)) = []
   \<and> (0, 0) \<notin> set (position_history (snd (update module_globals (Some (0, 0)) capacity_zero)))"
  by (simp add: init_def capacity_zero_def update_def module_globals_def deque_append_def)




text \<open>
  C5. With at least 5 samples and the cooldown at 0, detectPush t returns True exactly
  when the y coordinate of the newest sample minus that of the oldest exceeds t, and
  detectPull t returns True exactly when that same difference is below -t; a True result
  sets gesture_cooldown to cooldown_frames and a False one changes nothing. No x coordinate
  enters either test.
\<close>

theorem push_pull_vertical:
  assumes "5 \<le> length (position_history r)" and "gesture_cooldown r = 0"
  shows "detectPush t r =
           (if real_of_int (snd (last (position_history r)) - snd (hd (position_history r))) > t
            then (Inr True, r\<lparr>gesture_cooldown := cooldown_frames r\<rparr>) else (Inr False, r))
       \<and> detectPull t r =
           (if real_of_int (snd (last (position_history r)) - snd (hd (position_history r))) < - t
            then (Inr True, r\<lparr>gesture_cooldown := cooldown_frames r\<rparr>) else (Inr False, r))"
  using assms by (simp add: detectPush_unfold detectPull_unfold dy_of_def)

theorem push_pull_vertical_witness:
  "5 \<le> length (position_history push_ready) \<and> gesture_cooldown push_ready = 0
   \<and> detectPush 150 push_ready = (Inr True, push_ready\<lparr>gesture_cooldown := 15\<rparr>)
   \<and> detectPull 150 push_ready = (Inr False, push_ready)"
proof -
  have "5 \<le> length (position_history push_ready)" and "gesture_cooldown push_ready = 0"
    by (simp_all add: sample_fields)
  from push_pull_vertical [OF this, of 150] this show ?thesis
    by (simp add: sample_fields)
qed




text \<open>
  C7. Every detector call leaves position_history as it was. A call that returns None or
  False leaves the whole recognizer as it was, so calling the same detector again with
  the same arguments gives the same result and the same state.
\<close>

theorem detectors_frame:
  "position_history (snd (detectSwipe d t r)) = position_history r
   \<and> position_history (snd (detectPush t r)) = position_history r
   \<and> position_history (snd (detectPull t r)) = position_history r
   \<and> (fst (detectSwipe d t r) = Inr None \<longrightarrow>
        snd (detectSwipe d t r) = r
        \<and> detectSwipe d t (snd (detectSwipe d t r)) = detectSwipe d t r)
   \<and> (fst (detectPush t r) = Inr False \<longrightarrow>
        snd (detectPush t r) = r
        \<and> detectPush t (snd (detectPush t r)) = detectPush t r)
   \<and> (fst (detectPull t r) = Inr False \<longrightarrow>
        snd (detectPull t r) = r
        \<and> detectPull t (snd (detectPull t r)) = detectPull t r)"
proof (intro conjI)
  show "position_history (snd (detectSwipe d t r)) = position_history r"
    by (simp add: detectSwipe_unfold split: sum.split)
  show "position_history (snd (detectPush t r)) = position_history r"
    by (simp add: detectPush_unfold)
  show "position_history (snd (detectPull t r)) = position_history r"
    by (simp add: detectPull_unfold)
  have swipe_same: "fst (detectSwipe d t r) = Inr None \<longrightarrow> snd (detectSwipe d t r) = r"
    by (simp add: detectSwipe_unfold split: sum.split)
  then show "fst (detectSwipe d t r) = Inr None \<longrightarrow>
        snd (detectSwipe d t r) = r
        \<and> detectSwipe d t (snd (detectSwipe d t r)) = detectSwipe d t r"
    by simp
  have push_same: "fst (detectPush t r) = Inr False \<longrightarrow> snd (detectPush t r) = r"
    by (simp add: detectPush_unfold)
  then show "fst (detectPush t r) = Inr False \<longrightarrow>
        snd (detectPush t r) = r
        \<and> detectPush t (snd (detectPush t r)) = detectPush t r"
    by simp
  have pull_same: "fst (detectPull t r) = Inr False \<longrightarrow> snd (detectPull t r) = r"
    by (simp add: detectPull_unfold)
  then show "fst (detectPull t r) = Inr False \<longrightarrow>
        snd (detectPull t r) = r
        \<and> detectPull t (snd (detectPull t r)) = detectPull t r"
    by simp
qed

theorem detectors_frame_witness:
  "fst (detectSwipe ''up'' 100 swipe_ready) = Inr None
   \<and> fst (detectPush 100 swipe_ready) = Inr False
   \<and> fst (detectPull 100 swipe_ready) = Inr False
   \<and> snd (detectSwipe ''up'' 100 swipe_ready) = swipe_ready
   \<and> fst (detectSwipe ''up'' 100 (snd (detectSwipe ''up'' 100 swipe_ready))) = Inr None
   \<and> fst (detectPush 100 (snd (detectPush 100 swipe_ready))) = Inr False
   \<and> fst (detectPull 100 (snd (detectPull 100 swipe_ready))) = Inr False"
proof -
  have a: "fst (detectSwipe ''up'' 100 swipe_ready) = Inr None"
    and b: "fst (detectPush 100 swipe_ready) = Inr False"
    and c: "fst (detectPull 100 swipe_ready) = Inr False"
    by (simp_all add: sample_calls detectPush_unfold detectPull_unfold
        sample_fields sample_displacements)
  from detectors_frame [of "''up''" 100 swipe_ready] a b c show ?thesis
    by simp
qed

text \<open>
  C8, as the code has it. A recognizer is constructed from the keyword history_size alone
  (10 when omitted): it starts with an empty history of that capacity, gesture_cooldown 0,
  last_gesture None, and cooldown_frames 15 whatever the caller passed. The result is a
  function of the arguments only.
\<close>

theorem constructor_configuration:
  assumes "GestureRecognizer kwargs = Inr r"
  shows "cooldown_frames r = 15
       \<and> maxlen r = nat (case map_of kwargs ''history_size'' of None \<Rightarrow> 10 | Some n \<Rightarrow> n)
       \<and> ''cooldown_frames'' \<notin> fst ` set kwargs
       \<and> position_history r = [] \<and> gesture_cooldown r = 0 \<and> last_gesture r = None"
proof -
  from assms have only: "\<not> list_ex (\<lambda>kv. fst kv \<noteq> ''history_size'') kwargs"
    by (auto simp add: GestureRecognizer_def split: if_splits)
  then have absent: "''cooldown_frames'' \<notin> fst ` set kwargs"
    by (auto simp add: list_ex_iff)
  from assms only
  have "init (case map_of kwargs ''history_size'' of None \<Rightarrow> 10 | Some n \<Rightarrow> n) = Inr r"
    by (simp add: GestureRecognizer_def)
  then have "cooldown_frames r = 15"
    and "maxlen r = nat (case map_of kwargs ''history_size'' of None \<Rightarrow> 10 | Some n \<Rightarrow> n)"
    and "position_history r = []" and "gesture_cooldown r = 0" and "last_gesture r = None"
    by (auto simp add: init_def split: if_splits)
  with absent show ?thesis
    by (intro conjI)
qed

theorem constructor_configuration_witness:
  "GestureRecognizer [(''history_size'', 3)] = Inr capacity_three
   \<and> GestureRecognizer [] = Inr (capacity_three\<lparr>maxlen := 10\<rparr>)
   \<and> cooldown_frames capacity_three = 15
   \<and> cooldown_frames (capacity_three\<lparr>maxlen := 10\<rparr>) = 15"
proof -
  have a: "GestureRecognizer [(''history_size'', 3)] = Inr capacity_three"
    and b: "GestureRecognizer [] = Inr (capacity_three\<lparr>maxlen := 10\<rparr>)"
    by (simp_all add: GestureRecognizer_def init_def capacity_three_def)
  from constructor_configuration [OF a] constructor_configuration [OF b] a b
  show ?thesis by simp
qed

text \<open>
  C8, as the claim states it, fails: the constructor has no cooldown_frames parameter.
  Supplying 30 for it is a TypeError, with or without history_size, and the recognizer
  constructed without it has cooldown_frames 15, not 30.
\<close>

theorem cooldown_frames_counterexample:
  "GestureRecognizer [(''cooldown_frames'', 30)] = Inl TypeError
   \<and> GestureRecognizer [(''history_size'', 3), (''cooldown_frames'', 30)] = Inl TypeError
   \<and> GestureRecognizer [(''history_size'', 3)] = Inr capacity_three
   \<and> cooldown_frames capacity_three \<noteq> 30"
  by (simp add: GestureRecognizer_def init_def capacity_three_def)

text \<open>
  C9, as the code has it. last_gesture is None in a freshly constructed recognizer, and
  neither update nor any detector assigns it: after each of these calls it is what it was
  before, also when the call reports a gesture.
\<close>

theorem last_gesture_never_assigned:
  "(init history_size = Inr r0 \<longrightarrow> last_gesture r0 = None)
   \<and> last_gesture (snd (update g position r)) = last_gesture r
   \<and> last_gesture (snd (detectSwipe d t r)) = last_gesture r
   \<and> last_gesture (snd (detectPush t r)) = last_gesture r
   \<and> last_gesture (snd (detectPull t r)) = last_gesture r"
proof (intro conjI)
  show "init history_size = Inr r0 \<longrightarrow> last_gesture r0 = None"
    by (auto simp add: init_def split: if_splits)
  show "last_gesture (snd (update g position r)) = last_gesture r"
    by (simp add: update_def Let_def split: option.split)
  show "last_gesture (snd (detectSwipe d t r)) = last_gesture r"
    by (simp add: detectSwipe_unfold split: sum.split)
  show "last_gesture (snd (detectPush t r)) = last_gesture r"
    by (simp add: detectPush_unfold)
  show "last_gesture (snd (detectPull t r)) = last_gesture r"
    by (simp add: detectPull_unfold)
qed

theorem last_gesture_never_assigned_witness:
  "init 10 = Inr \<lparr>position_history = [], maxlen = 10, last_gesture = None,
                  gesture_cooldown = 0, cooldown_frames = 15\<rparr>
   \<and> last_gesture \<lparr>position_history = [], maxlen = 10, last_gesture = None,
                    gesture_cooldown = 0, cooldown_frames = 15\<rparr> = None"
proof -
  have i: "init 10 = Inr \<lparr>position_history = [], maxlen = 10, last_gesture = None,
                  gesture_cooldown = 0, cooldown_frames = 15\<rparr>"
    by (simp add: init_def)
  from last_gesture_never_assigned [where history_size = 10] i show ?thesis
    by simp
qed

text \<open>
  C9, as the claim states it, fails: detectSwipe on the five samples ending 200 pixels to
  the right returns right, and last_gesture is still None afterwards.
\<close>

theorem last_gesture_counterexample:
  "fst (detectSwipe ''any'' 100 swipe_ready) = Inr (Some ''right'')
   \<and> last_gesture (snd (detectSwipe ''any'' 100 swipe_ready)) = None
   \<and> last_gesture (snd (detectSwipe ''any'' 100 swipe_ready)) \<noteq> Some ''right''"
  by (simp add: sample_calls sample_fields)

text \<open>
  C10. With at least 5 samples whose oldest and newest points are equal, the cooldown at
  0 and a threshold that is not positive, detectSwipe asked for 'any' direction (its
  default) or for up returns up and sets gesture_cooldown to cooldown_frames.
\<close>

theorem stationary_swipe_up:
  assumes "5 \<le> length (position_history r)"
    and "hd (position_history r) = last (position_history r)"
    and "gesture_cooldown r = 0"
    and "threshold \<le> 0"
    and "direction = ''any'' \<or> direction = ''up''"
  shows "detectSwipe direction threshold r =
           (Inr (Some ''up''), r\<lparr>gesture_cooldown := cooldown_frames r\<rparr>)"
proof -
  have still: "dx_of r = 0" "dy_of r = 0"
    using assms(2) by (simp_all add: dx_of_def dy_of_def)
  then have root: "distance (dx_of r) (dy_of r) = Inr 0"
    by (simp add: sample_distances)
  from detectSwipe_computes [OF assms(1) root, of direction threshold] assms(3,4,5) still
  show ?thesis
    by (auto simp add: sample_labels)
qed

theorem stationary_swipe_up_witness:
  "5 \<le> length (position_history still_ready)
   \<and> hd (position_history still_ready) = last (position_history still_ready)
   \<and> gesture_cooldown still_ready = 0
   \<and> detectSwipe ''any'' 0 still_ready = (Inr (Some ''up''), still_ready\<lparr>gesture_cooldown := 15\<rparr>)"
proof -
  have "5 \<le> length (position_history still_ready)"
    and "hd (position_history still_ready) = last (position_history still_ready)"
    and "gesture_cooldown still_ready = 0"
    and "(0::real) \<le> 0"
    and "''any'' = ''any'' \<or> ''any'' = ''up''"
    by (simp_all add: sample_fields)
  from stationary_swipe_up [OF this] this(1-3) show ?thesis
    by (simp add: sample_fields)
qed

end
